theory Spec2Isabelle
  imports Main
begin

section \<open>Python primitives used by lid\_functions.py\<close>

text \<open>
  The module reads a LAMMPS input data file by name and works on the list of its lines.
  Text is modelled as \<^typ>\<open>string\<close>: a character is a code point below 256. Python
  integers are \<^typ>\<open>int\<close>. Every place where the Python can raise is a branch that
  returns \<open>Inl\<close> of the exception.
\<close>

datatype error = IndexError | ValueError | FileNotFoundError

text \<open>
  An element of the three header lists: the initial integer \<open>0\<close>, or the token that a
  header line stored there (the source never converts a token to a number).
\<close>

datatype pyval = PInt int | PStr string

text \<open>What an extractor can hold in its result variable: \<open>None\<close> or a list of rows.\<close>

datatype pyresult = PyNone | PyList "string list list"

text \<open>
  \<open>str.isspace\<close> on the code points below 256: tab, line feed, vertical tab, form
  feed, carriage return, the four separators 0x1C..0x1F, space, NEL and the no-break
  space.
\<close>

definition isspace :: "char \<Rightarrow> bool" where
  "isspace c = (c \<in> set [CHR 0x09, CHR 0x0A, CHR 0x0B, CHR 0x0C, CHR 0x0D,
     CHR 0x1C, CHR 0x1D, CHR 0x1E, CHR 0x1F, CHR 0x20, CHR 0x85, CHR 0xA0])"

text \<open>
  \<open>line.split()\<close>: the maximal runs of non-whitespace characters, in order. The scanner
  keeps the token read so far in \<open>tok\<close>.
\<close>

primrec split_acc :: "string \<Rightarrow> string \<Rightarrow> string list" where
  "split_acc [] tok = (if tok = [] then [] else [tok])"
| "split_acc (c # cs) tok =
     (if isspace c then (if tok = [] then split_acc cs [] else tok # split_acc cs [])
      else split_acc cs (tok @ [c]))"

definition split :: "string \<Rightarrow> string list" where
  "split s = split_acc s []"

text \<open>
  \<open>ifile.readlines()\<close> on the text of a file: every line keeps its terminating line
  feed; a last line without one is kept too.
\<close>

primrec readlines_acc :: "string \<Rightarrow> string \<Rightarrow> string list" where
  "readlines_acc [] cur = (if cur = [] then [] else [cur])"
| "readlines_acc (c # cs) cur =
     (if c = CHR 0x0A then (cur @ [c]) # readlines_acc cs []
      else readlines_acc cs (cur @ [c]))"

definition readlines :: "string \<Rightarrow> string list" where
  "readlines txt = readlines_acc txt []"

text \<open>
  The world the functions run in: the text of each file as \<open>open(fname, "r")\<close> hands
  it to the program (decoded, every line end translated to a line feed), and what has
  been printed so far, one entry per \<open>print\<close> call. A name without a file is the
  failure of \<open>open\<close>.
\<close>

record world =
  files :: "string \<rightharpoonup> string"
  stdout :: "string list"

definition open_readlines :: "string \<Rightarrow> world \<Rightarrow> error + string list" where
  "open_readlines fname w =
     (case files w fname of
        None \<Rightarrow> Inl FileNotFoundError
      | Some txt \<Rightarrow> Inr (readlines txt))"

definition Fore_RED :: string where
  "Fore_RED = [CHR 0x1B] @ ''[31m''"

definition print :: "string \<Rightarrow> world \<Rightarrow> world" where
  "print s w = w\<lparr>stdout := stdout w @ [s]\<rparr>"

text \<open>\<open>xs.index(x)\<close>: the first position of \<open>x\<close>; \<open>None\<close> stands for ValueError.\<close>

fun index_of :: "'a list \<Rightarrow> 'a \<Rightarrow> nat option" where
  "index_of [] x = None"
| "index_of (y # ys) x = (if y = x then Some 0 else map_option Suc (index_of ys x))"

text \<open>\<open>xs[i] = v\<close> for a non-negative index: IndexError past the end.\<close>

definition setitem :: "'a list \<Rightarrow> nat \<Rightarrow> 'a \<Rightarrow> error + 'a list" where
  "setitem xs i v = (if i < length xs then Inr (xs[i := v]) else Inl IndexError)"

text \<open>Python's order on lists of integers: lexicographic, a proper prefix is smaller.\<close>

fun list_lt :: "int list \<Rightarrow> int list \<Rightarrow> bool" where
  "list_lt [] [] = False"
| "list_lt [] (y # ys) = True"
| "list_lt (x # xs) [] = False"
| "list_lt (x # xs) (y # ys) = (if x = y then list_lt xs ys else x < y)"

text \<open>
  \<open>max(xs)\<close> and \<open>min(xs)\<close>: the first maximal (minimal) element; ValueError on the
  empty list.
\<close>

fun py_max :: "int list list \<Rightarrow> error + int list" where
  "py_max [] = Inl ValueError"
| "py_max (x # xs) = Inr (foldl (\<lambda>m y. if list_lt m y then y else m) x xs)"

fun py_min :: "int list \<Rightarrow> error + int" where
  "py_min [] = Inl ValueError"
| "py_min (x # xs) = Inr (foldl (\<lambda>m y. if y < m then y else m) x xs)"

text \<open>
  \<open>xs[start:stop]\<close>: a negative bound counts from the end, both bounds are clamped to
  the list, \<open>None\<close> as \<open>stop\<close> is the end of the list.
\<close>

definition slice_bound :: "nat \<Rightarrow> int \<Rightarrow> nat" where
  "slice_bound n i = (let j = (if i < 0 then i + int n else i) in nat (max 0 (min j (int n))))"

definition slice :: "'a list \<Rightarrow> int \<Rightarrow> int option \<Rightarrow> 'a list" where
  "slice xs start stop =
     (let a = slice_bound (length xs) start;
          b = (case stop of None \<Rightarrow> length xs | Some s \<Rightarrow> slice_bound (length xs) s)
      in take (b - a) (drop a xs))"

section \<open>lid\_header\<close>

definition sections :: "string list" where
  "sections = [''Masses'', ''Atoms'', ''Bonds'', ''Angles'', ''Dihedrals'', ''Impropers'']"

definition molecular_prop :: "string list" where
  "molecular_prop = [''atoms'', ''bonds'', ''angles'', ''dihedrals'', ''impropers'']"

definition types_prop :: "string list" where
  "types_prop = [''atom'', ''bond'', ''angle'', ''dihedral'', ''improper'']"

definition boundary_prop :: "string list" where
  "boundary_prop = [''xlo'', ''xhi'', ''ylo'', ''yhi'', ''zlo'', ''zhi'']"

text \<open>
  The loop of \<open>lid_header\<close> over the lines, with the three lists it updates. The four
  branches are tried in the order of the source; the last one is the \<open>break\<close>.
\<close>

primrec lid_header_loop ::
  "string list \<Rightarrow> pyval list \<Rightarrow> pyval list \<Rightarrow> pyval list \<Rightarrow>
   error + (pyval list \<times> pyval list \<times> pyval list)" where
  "lid_header_loop [] molecular_data types_data boundary_data =
     Inr (molecular_data, types_data, boundary_data)"
| "lid_header_loop (l # ls) molecular_data types_data boundary_data =
     (let line = split l in
      if length line \<ge> 2 \<and> line ! 1 \<in> set molecular_prop then
        (case index_of molecular_prop (line ! 1) of
           None \<Rightarrow> Inl ValueError
         | Some i \<Rightarrow>
             (case setitem molecular_data i (PStr (line ! 0)) of
                Inl e \<Rightarrow> Inl e
              | Inr md \<Rightarrow> lid_header_loop ls md types_data boundary_data))
      else if length line \<ge> 3 \<and> line ! 1 \<in> set types_prop then
        (case index_of types_prop (line ! 1) of
           None \<Rightarrow> Inl ValueError
         | Some i \<Rightarrow>
             (case setitem types_data i (PStr (line ! 0)) of
                Inl e \<Rightarrow> Inl e
              | Inr td \<Rightarrow> lid_header_loop ls molecular_data td boundary_data))
      else if length line \<ge> 4 \<and> line ! 2 \<in> set boundary_prop then
        (case index_of boundary_prop (line ! 2) of
           None \<Rightarrow> Inl ValueError
         | Some i \<Rightarrow>
             (case setitem boundary_data i (PStr (line ! 0)) of
                Inl e \<Rightarrow> Inl e
              | Inr bd \<Rightarrow>
                  (case setitem bd (i + 1) (PStr (line ! 1)) of
                     Inl e \<Rightarrow> Inl e
                   | Inr bd' \<Rightarrow> lid_header_loop ls molecular_data types_data bd')))
      else if length line \<ge> 1 \<and> line ! 0 \<in> set sections then
        Inr (molecular_data, types_data, boundary_data)
      else lid_header_loop ls molecular_data types_data boundary_data)"

definition lid_header ::
  "string \<Rightarrow> world \<Rightarrow> error + (pyval list \<times> pyval list \<times> pyval list)" where
  "lid_header fname w =
     (case open_readlines fname w of
        Inl e \<Rightarrow> Inl e
      | Inr lines \<Rightarrow>
          lid_header_loop lines
            [PInt 0, PInt 0, PInt 0, PInt 0, PInt 0]
            [PInt 0, PInt 0, PInt 0, PInt 0, PInt 0]
            [PInt 0, PInt 0, PInt 0, PInt 0, PInt 0, PInt 0])"

section \<open>parse\_lid\<close>

text \<open>
  The loop of \<open>parse_lid\<close>: the counter and the six two-element lists. A matching line
  stores the counter in element 0 of its list; the counter advances after every line.
\<close>

primrec parse_lid_loop ::
  "string list \<Rightarrow> int \<Rightarrow> int list \<Rightarrow> int list \<Rightarrow> int list \<Rightarrow> int list \<Rightarrow> int list \<Rightarrow>
   int list \<Rightarrow> int list list" where
  "parse_lid_loop [] counter mas_section atm_section bnd_section ang_section dih_section
       imp_section =
     [mas_section, atm_section, bnd_section, ang_section, dih_section, imp_section]"
| "parse_lid_loop (l # ls) counter mas_section atm_section bnd_section ang_section
       dih_section imp_section =
     (let line = split l in
      if length line \<ge> 1 \<and> line ! 0 = ''Masses'' then
        parse_lid_loop ls (counter + 1) (mas_section[0 := counter]) atm_section bnd_section
          ang_section dih_section imp_section
      else if length line \<ge> 1 \<and> line ! 0 = ''Atoms'' then
        parse_lid_loop ls (counter + 1) mas_section (atm_section[0 := counter]) bnd_section
          ang_section dih_section imp_section
      else if length line \<ge> 1 \<and> line ! 0 = ''Bonds'' then
        parse_lid_loop ls (counter + 1) mas_section atm_section (bnd_section[0 := counter])
          ang_section dih_section imp_section
      else if length line \<ge> 1 \<and> line ! 0 = ''Angles'' then
        parse_lid_loop ls (counter + 1) mas_section atm_section bnd_section
          (ang_section[0 := counter]) dih_section imp_section
      else if length line \<ge> 1 \<and> line ! 0 = ''Dihedrals'' then
        parse_lid_loop ls (counter + 1) mas_section atm_section bnd_section ang_section
          (dih_section[0 := counter]) imp_section
      else if length line \<ge> 1 \<and> line ! 0 = ''Impropers'' then
        parse_lid_loop ls (counter + 1) mas_section atm_section bnd_section ang_section
          dih_section (imp_section[0 := counter])
      else
        parse_lid_loop ls (counter + 1) mas_section atm_section bnd_section ang_section
          dih_section imp_section)"

definition parse_lid :: "string \<Rightarrow> world \<Rightarrow> error + int list list" where
  "parse_lid fname w =
     (case open_readlines fname w of
        Inl e \<Rightarrow> Inl e
      | Inr lines \<Rightarrow> Inr (parse_lid_loop lines 0 [0, 0] [0, 0] [0, 0] [0, 0] [0, 0] [0, 0]))"

section \<open>The six extractors\<close>

text \<open>
  \<open>masses\<close>, \<open>atoms\<close>, \<open>bonds\<close>, \<open>angles\<close>, \<open>dihedrals\<close> and \<open>impropers\<close> are six copies
  of one body that differ in the index \<open>k\<close> of their entry of \<open>in_data\<close> and in the two
  warnings they print. \<open>section_data\<close> is that body.

  The list \<open>stop\<close> of the last branch: one distance per entry of \<open>in_data\<close>.
\<close>

definition stop_list :: "int list list \<Rightarrow> nat \<Rightarrow> int list" where
  "stop_list in_data k =
     concat (map (\<lambda>element.
        if element ! 0 - in_data ! k ! 0 = 0 then [5000000000000]
        else if element ! 0 - in_data ! k ! 0 < 0 then [5000000000000]
        else if element ! 0 - in_data ! k ! 0 > 0 then [element ! 0 - in_data ! k ! 0]
        else []) in_data)"

text \<open>The final loop: the tokens of every line of the slice that has a token.\<close>

primrec data_loop :: "string list \<Rightarrow> string list list \<Rightarrow> string list list" where
  "data_loop [] section_rows = section_rows"
| "data_loop (l # ls) section_rows =
     (let line = split l in
      if line \<noteq> [] then data_loop ls (section_rows @ [line]) else data_loop ls section_rows)"

text \<open>
  The three branches give the result variable (bound to \<open>None\<close> in the first branch
  only), \<open>start\<close>, \<open>stop\<close> and the world after the warnings. The file is then read a
  second time, and the result variable is bound to the rows of the slice whatever the
  branch was.
\<close>

definition section_bounds ::
  "nat \<Rightarrow> string \<Rightarrow> string \<Rightarrow> int list list \<Rightarrow> world \<Rightarrow>
   error + (pyresult option \<times> int \<times> int option \<times> world)" where
  "section_bounds k warning1 warning2 in_data w =
     (if in_data ! k ! 0 = 0 then
        Inr (Some PyNone, - 1, Some (- 1),
             print (Fore_RED @ warning2) (print (Fore_RED @ warning1) w))
      else
        (case py_max in_data of
           Inl e \<Rightarrow> Inl e
         | Inr m \<Rightarrow>
             if in_data ! k ! 0 = m ! 0 then
               Inr (None, in_data ! k ! 0 + 1, None, w)
             else
               (let stop = stop_list in_data k in
                case py_min stop of
                  Inl e \<Rightarrow> Inl e
                | Inr least \<Rightarrow>
                    (case index_of stop least of
                       None \<Rightarrow> Inl ValueError
                     | Some stop_index \<Rightarrow>
                         Inr (None, in_data ! k ! 0 + 1, Some (in_data ! stop_index ! 0), w)))))"

definition section_data ::
  "nat \<Rightarrow> string \<Rightarrow> string \<Rightarrow> string \<Rightarrow> world \<Rightarrow> (error + pyresult) \<times> world" where
  "section_data k warning1 warning2 fname w =
     (case parse_lid fname w of
        Inl e \<Rightarrow> (Inl e, w)
      | Inr in_data \<Rightarrow>
          (case section_bounds k warning1 warning2 in_data w of
             Inl e \<Rightarrow> (Inl e, w)
           | Inr (unused, start, stop, w') \<Rightarrow>
               (case open_readlines fname w' of
                  Inl e \<Rightarrow> (Inl e, w')
                | Inr all_lines \<Rightarrow>
                    (Inr (PyList (data_loop (slice all_lines start stop) [])), w'))))"

definition masses :: "string \<Rightarrow> world \<Rightarrow> (error + pyresult) \<times> world" where
  "masses = section_data 0 ''Warning: No masses data available.''
     ''LAMMPS simulation can't run.''"

definition atoms :: "string \<Rightarrow> world \<Rightarrow> (error + pyresult) \<times> world" where
  "atoms = section_data 1 ''Warning: No atoms data available.''
     ''LAMMPS simulation can't run.''"

definition bonds :: "string \<Rightarrow> world \<Rightarrow> (error + pyresult) \<times> world" where
  "bonds = section_data 2 ''Warning: No atoms data available.''
     ''LAMMPS simulation may produce wrong results.''"

definition angles :: "string \<Rightarrow> world \<Rightarrow> (error + pyresult) \<times> world" where
  "angles = section_data 3 ''Warning: No angles data available.''
     ''LAMMPS simulation may produce wrong results.''"

definition dihedrals :: "string \<Rightarrow> world \<Rightarrow> (error + pyresult) \<times> world" where
  "dihedrals = section_data 4 ''Warning: No dihedrals data available.''
     ''LAMMPS simulation may produce wrong results.''"

definition impropers :: "string \<Rightarrow> world \<Rightarrow> (error + pyresult) \<times> world" where
  "impropers = section_data 5 ''Warning: No impropers data available.''
     ''LAMMPS simulation may produce wrong results.''"

text \<open>The extractors in the order of the table: entry \<open>k\<close> belongs to extractor \<open>k\<close>.\<close>

definition extractors :: "(string \<Rightarrow> world \<Rightarrow> (error + pyresult) \<times> world) list" where
  "extractors = [masses, atoms, bonds, angles, dihedrals, impropers]"

section \<open>Notions the statements use\<close>

text \<open>A line whose first token is the keyword \<open>kw\<close> (an exact, case-sensitive match).\<close>

definition keyword_line :: "string \<Rightarrow> string \<Rightarrow> bool" where
  "keyword_line kw l = (case split l of [] \<Rightarrow> False | t # ts \<Rightarrow> t = kw)"

text \<open>The zero-based indices of the keyword lines of a file, in file order.\<close>

definition keyword_indices :: "string \<Rightarrow> string list \<Rightarrow> nat list" where
  "keyword_indices kw lines = filter (\<lambda>i. keyword_line kw (lines ! i)) [0..<length lines]"

text \<open>
  The index of the last line whose first token is the keyword, or 0 if there is no such
  line; and the same for the first such line.
\<close>

definition last_keyword_index :: "string \<Rightarrow> string list \<Rightarrow> nat" where
  "last_keyword_index kw lines =
     (case rev (keyword_indices kw lines) of [] \<Rightarrow> 0 | i # js \<Rightarrow> i)"

definition first_keyword_index :: "string \<Rightarrow> string list \<Rightarrow> nat" where
  "first_keyword_index kw lines =
     (case keyword_indices kw lines of [] \<Rightarrow> 0 | i # js \<Rightarrow> i)"

text \<open>The offsets of a table: element 0 of each entry.\<close>

definition offsets :: "int list list \<Rightarrow> int list" where
  "offsets in_data = map (\<lambda>element. element ! 0) in_data"

text \<open>
  The tokens of the non-blank lines with indices from \<open>a\<close> up to, not including, \<open>b\<close>,
  in file order.
\<close>

definition body_rows :: "string list \<Rightarrow> nat \<Rightarrow> nat \<Rightarrow> string list list" where
  "body_rows lines a b = filter (\<lambda>toks. toks \<noteq> []) (map (\<lambda>i. split (lines ! i)) [a..<b])"

text \<open>
  What the loop of \<open>parse_lid\<close> does to the entry of one keyword: \<open>v\<close> is element 0 of
  the entry before the loop, the result is element 0 after it.
\<close>

primrec scan_keyword :: "string \<Rightarrow> string list \<Rightarrow> int \<Rightarrow> int \<Rightarrow> int" where
  "scan_keyword kw [] counter v = v"
| "scan_keyword kw (l # ls) counter v =
     scan_keyword kw ls (counter + 1) (if keyword_line kw l then counter else v)"


text \<open>
  A line at which the loop of \<open>lid_header\<close> takes its \<open>break\<close>: none of the three
  earlier branches matches it, and its first token is a section keyword.
\<close>

definition header_break_line :: "string \<Rightarrow> bool" where
  "header_break_line l =
     (let line = split l in
      \<not> (length line \<ge> 2 \<and> line ! 1 \<in> set molecular_prop) \<and>
      \<not> (length line \<ge> 3 \<and> line ! 1 \<in> set types_prop) \<and>
      \<not> (length line \<ge> 4 \<and> line ! 2 \<in> set boundary_prop) \<and>
      length line \<ge> 1 \<and> line ! 0 \<in> set sections)"

text \<open>A world with one file and nothing printed yet.\<close>

definition one_file :: "string \<Rightarrow> string \<Rightarrow> world" where
  "one_file fname txt = \<lparr>files = Map.empty(fname \<mapsto> txt), stdout = []\<rparr>"

text \<open>
  A sample file: a title line, \<open>Masses\<close> with one row and an empty line, \<open>Atoms\<close> with
  two rows around a line of one space, the last line without a line feed. It has no
  \<open>Bonds\<close>, \<open>Angles\<close>, \<open>Dihedrals\<close> or \<open>Impropers\<close> section.
\<close>

definition sample_text :: string where
  "sample_text =
     ''x\<newline>Masses\<newline>1 1.0\<newline>\<newline>Atoms\<newline>1 2 3\<newline> \<newline>4 5 6''"

text \<open>The file of the concrete scenario: three header lines, \<open>Atoms\<close> and two rows.\<close>

definition scenario_text :: string where
  "scenario_text =
     ''2 atoms\<newline>1 atom types\<newline>0.0 10.0 xlo xhi\<newline>Atoms\<newline>1 1 1 0.0 0.0 0.0 0.0\<newline>2 1 1 0.0 1.0 0.0 0.0\<newline>''"

text \<open>A file with the keyword \<open>Atoms\<close> on two lines, 1 and 4.\<close>

definition duplicate_text :: string where
  "duplicate_text = ''x\<newline>Atoms\<newline>1\<newline>\<newline>Atoms\<newline>2\<newline>''"

section \<open>Facts about the primitives\<close>

lemma data_loop_eq:
  "data_loop ls section_rows = section_rows @ filter (\<lambda>toks. toks \<noteq> []) (map split ls)"
  by (induction ls arbitrary: section_rows) (simp_all add: Let_def)

lemma parse_lid_loop_scan:
  "parse_lid_loop ls c [m0, m1] [a0, a1] [b0, b1] [g0, g1] [d0, d1] [i0, i1] =
    [[scan_keyword ''Masses'' ls c m0, m1], [scan_keyword ''Atoms'' ls c a0, a1],
     [scan_keyword ''Bonds'' ls c b0, b1], [scan_keyword ''Angles'' ls c g0, g1],
     [scan_keyword ''Dihedrals'' ls c d0, d1], [scan_keyword ''Impropers'' ls c i0, i1]]"
proof (induction ls arbitrary: c m0 a0 b0 g0 d0 i0)
  case Nil
  show ?case by simp
next
  case (Cons l ls)
  show ?case
    by (cases "split l") (simp_all add: Cons.IH keyword_line_def Let_def)
qed

lemma scan_keyword_append:
  "scan_keyword kw (xs @ ys) c v = scan_keyword kw ys (c + int (length xs)) (scan_keyword kw xs c v)"
  by (induction xs arbitrary: c v) (simp_all add: add.assoc)

lemma keyword_indices_snoc:
  "keyword_indices kw (xs @ [l]) =
     keyword_indices kw xs @ (if keyword_line kw l then [length xs] else [])"
proof -
  have "filter (\<lambda>i. keyword_line kw ((xs @ [l]) ! i)) [0..<length xs] =
        filter (\<lambda>i. keyword_line kw (xs ! i)) [0..<length xs]"
    by (rule filter_cong) (simp_all add: nth_append)
  then show ?thesis by (simp add: keyword_indices_def)
qed

lemma scan_keyword_indices:
  "scan_keyword kw ls c v =
     (case rev (keyword_indices kw ls) of [] \<Rightarrow> v | i # js \<Rightarrow> c + int i)"
proof (induction ls rule: rev_induct)
  case Nil
  show ?case by (simp add: keyword_indices_def)
next
  case (snoc l ls)
  show ?case by (simp add: scan_keyword_append keyword_indices_snoc snoc.IH)
qed

lemma scan_keyword_last: "scan_keyword kw ls 0 0 = int (last_keyword_index kw ls)"
  by (simp add: scan_keyword_indices last_keyword_index_def split: list.splits)

lemma keyword_indices_mem:
  "i \<in> set (keyword_indices kw ls) \<longleftrightarrow> i < length ls \<and> keyword_line kw (ls ! i)"
  by (auto simp: keyword_indices_def)

lemma last_keyword_index_mem:
  "keyword_indices kw ls \<noteq> [] \<Longrightarrow> last_keyword_index kw ls \<in> set (keyword_indices kw ls)"
  by (cases "keyword_indices kw ls" rule: rev_cases) (simp_all add: last_keyword_index_def)

lemma last_keyword_index_nonzero:
  assumes "last_keyword_index kw ls \<noteq> 0"
  shows "last_keyword_index kw ls < length ls \<and> keyword_line kw (ls ! last_keyword_index kw ls)"
proof -
  from assms have "keyword_indices kw ls \<noteq> []"
    by (auto simp: last_keyword_index_def)
  from last_keyword_index_mem [OF this] show ?thesis
    by (simp add: keyword_indices_mem)
qed

lemma last_keyword_index_none:
  "(\<forall>i < length ls. \<not> keyword_line kw (ls ! i)) \<Longrightarrow> last_keyword_index kw ls = 0"
proof -
  assume "\<forall>i < length ls. \<not> keyword_line kw (ls ! i)"
  then have "keyword_indices kw ls = []"
    by (auto simp: keyword_indices_def filter_empty_conv)
  then show ?thesis by (simp add: last_keyword_index_def)
qed

lemma parse_lid_table:
  assumes "files w fname = Some txt"
  shows "parse_lid fname w =
    Inr (map (\<lambda>kw. [int (last_keyword_index kw (readlines txt)), 0]) sections)"
  using assms
  by (simp add: parse_lid_def open_readlines_def parse_lid_loop_scan scan_keyword_last sections_def)

lemma py_max_table:
  "py_max (map (\<lambda>x. [x, 0]) (a # os)) = Inr [Max (set (a # os)), 0]"
proof -
  have "foldl (\<lambda>m y. if list_lt m y then y else m) [b, 0] (map (\<lambda>x. [x, 0]) os) =
        [fold max os b, 0]" for b
    by (induction os arbitrary: b) (auto simp: max_def)
  with Max.set_eq_fold [of a os] show ?thesis by simp
qed





lemma take_drop_upt:
  "b \<le> length xs \<Longrightarrow> take (b - a) (drop a xs) = map (\<lambda>i. xs ! i) [a..<b]"
proof -
  assume b: "b \<le> length xs"
  have "take (b - a) [a..<length xs] = [a..<b]"
    using b by (cases "a \<le> b") (simp_all add: take_upt)
  then have "map (\<lambda>i. xs ! i) [a..<b] =
      take (b - a) (drop a (map (\<lambda>i. xs ! i) [0..<length xs]))"
    by (simp add: take_map drop_map drop_upt del: map_nth)
  then show ?thesis by (simp add: map_nth)
qed

lemma slice_open:
  "0 \<le> a \<Longrightarrow> slice xs a None = map (\<lambda>i. xs ! i) [nat a..<length xs]"
proof -
  assume a: "0 \<le> a"
  have "slice_bound (length xs) a = min (nat a) (length xs)"
    using a by (auto simp: slice_bound_def Let_def min_def max_def)
  then have "slice xs a None = drop (nat a) xs"
    by (auto simp: slice_def Let_def min_def)
  also have "\<dots> = take (length xs - nat a) (drop (nat a) xs)" by simp
  also have "\<dots> = map (\<lambda>i. xs ! i) [nat a..<length xs]"
    by (rule take_drop_upt) simp
  finally show ?thesis .
qed


lemma slice_absent: "slice xs (- 1) (Some (- 1)) = []"
  by (simp add: slice_def Let_def)

lemma files_print [simp]: "files (print s w) = files w"
  by (simp add: print_def)

lemma table_nth: "k < length os \<Longrightarrow> map (\<lambda>x. [x, 0]) os ! k ! 0 = os ! k"
  by simp

lemma section_bounds_absent:
  assumes "k < length os" and "os ! k = 0"
  shows "section_bounds k warning1 warning2 (map (\<lambda>x. [x, 0]) os) w =
     Inr (Some PyNone, - 1, Some (- 1),
          print (Fore_RED @ warning2) (print (Fore_RED @ warning1) w))"
  using assms by (simp add: section_bounds_def)

lemma section_bounds_last:
  assumes "k < length os" and "os ! k \<noteq> 0" and "os ! k = Max (set os)"
  shows "section_bounds k warning1 warning2 (map (\<lambda>x. [x, 0]) os) w =
     Inr (None, os ! k + 1, None, w)"
proof -
  from assms(1) obtain a os' where os: "os = a # os'" by (cases os) auto
  have "py_max (map (\<lambda>x. [x, 0]) os) = Inr [Max (set os), 0]"
    unfolding os by (rule py_max_table)
  with assms show ?thesis
    by (simp add: section_bounds_def table_nth del: py_max.simps)
qed


lemma parse_lid_offsets:
  assumes "files w fname = Some txt"
  shows "parse_lid fname w =
    Inr (map (\<lambda>x. [x, 0]) (map (\<lambda>kw. int (last_keyword_index kw (readlines txt))) sections))"
  using parse_lid_table [OF assms] by (simp add: comp_def)

lemma offsets_table: "offsets (map (\<lambda>x. [x, 0]) os) = os"
  by (simp add: offsets_def comp_def)

lemma section_offsets_facts:
  assumes "os = map (\<lambda>kw. int (last_keyword_index kw ls)) sections"
  shows "length os = 6"
    and "x \<in> set os \<Longrightarrow> 0 \<le> x"
    and "x \<in> set os \<Longrightarrow> x \<noteq> 0 \<Longrightarrow> nat x < length ls"
proof -
  show "length os = 6" by (simp add: assms sections_def)
  show "x \<in> set os \<Longrightarrow> 0 \<le> x" by (auto simp: assms)
  assume "x \<in> set os" and "x \<noteq> 0"
  then obtain kw where "x = int (last_keyword_index kw ls)" and "last_keyword_index kw ls \<noteq> 0"
    by (auto simp: assms)
  with last_keyword_index_nonzero [of kw ls] show "nat x < length ls" by simp
qed

lemma section_data_absent:
  assumes f: "files w fname = Some txt" and k: "k < 6"
    and z: "int (last_keyword_index (sections ! k) (readlines txt)) = 0"
  shows "section_data k warning1 warning2 fname w =
    (Inr (PyList []), print (Fore_RED @ warning2) (print (Fore_RED @ warning1) w))"
proof -
  define os where "os = map (\<lambda>kw. int (last_keyword_index kw (readlines txt))) sections"
  have len: "length os = 6" by (rule section_offsets_facts(1) [OF os_def])
  have pl: "parse_lid fname w = Inr (map (\<lambda>x. [x, 0]) os)"
    unfolding os_def by (rule parse_lid_offsets [OF f])
  have "length sections = 6" by (simp add: sections_def)
  with k z have "os ! k = 0" by (simp add: os_def)
  then have sb: "section_bounds k warning1 warning2 (map (\<lambda>x. [x, 0]) os) w =
     Inr (Some PyNone, - 1, Some (- 1),
          print (Fore_RED @ warning2) (print (Fore_RED @ warning1) w))"
    using k len by (intro section_bounds_absent) simp_all
  show ?thesis
    by (simp add: section_data_def pl sb open_readlines_def f slice_absent)
qed

lemma section_data_last:
  assumes f: "files w fname = Some txt" and k: "k < 6"
    and os: "os = map (\<lambda>kw. int (last_keyword_index kw (readlines txt))) sections"
    and nz: "os ! k \<noteq> 0" and mx: "os ! k = Max (set os)"
  shows "section_data k warning1 warning2 fname w =
    (Inr (PyList (body_rows (readlines txt) (nat (os ! k) + 1) (length (readlines txt)))), w)"
proof -
  have len: "length os = 6" by (rule section_offsets_facts(1) [OF os])
  have pl: "parse_lid fname w = Inr (map (\<lambda>x. [x, 0]) os)"
    unfolding os by (rule parse_lid_offsets [OF f])
  have sb: "section_bounds k warning1 warning2 (map (\<lambda>x. [x, 0]) os) w =
     Inr (None, os ! k + 1, None, w)"
    using k len nz mx by (intro section_bounds_last) simp_all
  have "os ! k \<in> set os" using k len by simp
  then have ge: "0 \<le> os ! k" by (rule section_offsets_facts(2) [OF os])
  then have sl: "slice (readlines txt) (os ! k + 1) None =
      map (\<lambda>i. readlines txt ! i) [nat (os ! k) + 1..<length (readlines txt)]"
    by (simp add: slice_open nat_add_distrib)
  show ?thesis
    by (simp add: section_data_def pl sb open_readlines_def f sl data_loop_eq body_rows_def comp_def)
qed


lemma extractors_nth:
  assumes "k < 6"
  obtains warning1 warning2 where "extractors ! k = section_data k warning1 warning2"
proof -
  from assms consider "k = 0" | "k = 1" | "k = 2" | "k = 3" | "k = 4" | "k = 5" by linarith
  then show ?thesis
    by cases (auto intro: that simp: extractors_def masses_def atoms_def bonds_def angles_def
        dihedrals_def impropers_def)
qed

section \<open>The sample file\<close>

lemma sample_lines:
  "readlines sample_text =
     [''x\<newline>'', ''Masses\<newline>'', ''1 1.0\<newline>'', ''\<newline>'', ''Atoms\<newline>'', ''1 2 3\<newline>'', '' \<newline>'', ''4 5 6'']"
  by (simp add: sample_text_def readlines_def)

lemma sample_file: "files (one_file fname txt) fname = Some txt"
  by (simp add: one_file_def)

lemma sample_parse_lid:
  "parse_lid fname (one_file fname sample_text) =
     Inr [[1, 0], [4, 0], [0, 0], [0, 0], [0, 0], [0, 0]]"
  by (simp add: parse_lid_def open_readlines_def sample_file sample_lines split_def isspace_def)

lemma sample_offsets: "offsets [[1, 0], [4, 0], [0, 0], [0, 0], [0, 0], [0, 0]] = [1, 4, 0, 0, 0, 0]"
  by (simp add: offsets_def)

lemma table_of_parse_lid:
  assumes "files w fname = Some txt" and "parse_lid fname w = Inr in_data"
  shows "offsets in_data = map (\<lambda>kw. int (last_keyword_index kw (readlines txt))) sections"
proof -
  from parse_lid_offsets [OF assms(1)] assms(2)
  have "in_data =
      map (\<lambda>x. [x, 0]) (map (\<lambda>kw. int (last_keyword_index kw (readlines txt))) sections)"
    by (simp del: map_map)
  then show ?thesis by (simp only: offsets_table)
qed

section \<open>The extractors\<close>

text \<open>
  C2. If the recorded offset of section \<open>k\<close> is nonzero and is the maximum of the six
  offsets, extractor \<open>k\<close> returns the tokens of the non-blank lines from index
  \<open>offset + 1\<close> through the last line of the file.
\<close>

theorem last_section_runs_to_end_of_file:
  assumes "files w fname = Some txt" and "parse_lid fname w = Inr in_data" and "k < 6"
    and "offsets in_data ! k \<noteq> 0"
    and "offsets in_data ! k = Max (set (offsets in_data))"
  shows "fst ((extractors ! k) fname w) =
     Inr (PyList (body_rows (readlines txt) (nat (offsets in_data ! k) + 1)
       (length (readlines txt))))"
proof -
  note os = table_of_parse_lid [OF assms(1,2)]
  from extractors_nth [OF assms(3)] obtain warning1 warning2
    where ex: "extractors ! k = section_data k warning1 warning2" .
  show ?thesis
    unfolding ex by (simp add: section_data_last [OF assms(1,3) os assms(4,5)])
qed

theorem last_section_runs_to_end_of_file_witness:
  "files (one_file ''system.data'' sample_text) ''system.data'' = Some sample_text \<and>
   parse_lid ''system.data'' (one_file ''system.data'' sample_text) =
     Inr [[1, 0], [4, 0], [0, 0], [0, 0], [0, 0], [0, 0]] \<and>
   (1::nat) < 6 \<and>
   offsets [[1, 0], [4, 0], [0, 0], [0, 0], [0, 0], [0, 0]] ! 1 \<noteq> 0 \<and>
   offsets [[1, 0], [4, 0], [0, 0], [0, 0], [0, 0], [0, 0]] ! 1 =
     Max (set (offsets [[1, 0], [4, 0], [0, 0], [0, 0], [0, 0], [0, 0]])) \<and>
   fst (atoms ''system.data'' (one_file ''system.data'' sample_text)) =
     Inr (PyList [[''1'', ''2'', ''3''], [''4'', ''5'', ''6'']])"
proof -
  have h1: "files (one_file ''system.data'' sample_text) ''system.data'' = Some sample_text"
    by (rule sample_file)
  have h2: "parse_lid ''system.data'' (one_file ''system.data'' sample_text) =
     Inr [[1, 0], [4, 0], [0, 0], [0, 0], [0, 0], [0, 0]]"
    by (rule sample_parse_lid)
  have h3: "(1::nat) < 6" by simp
  have h4: "offsets [[1, 0], [4, 0], [0, 0], [0, 0], [0, 0], [0, 0]] ! 1 \<noteq> 0"
    by (simp add: sample_offsets)
  have h5: "offsets [[1, 0], [4, 0], [0, 0], [0, 0], [0, 0], [0, 0]] ! 1 =
     Max (set (offsets [[1, 0], [4, 0], [0, 0], [0, 0], [0, 0], [0, 0]]))"
    by (simp add: sample_offsets)
  have rows: "body_rows (readlines sample_text) 5 8 = [[''1'', ''2'', ''3''], [''4'', ''5'', ''6'']]"
    by (simp add: body_rows_def sample_lines upt_conv_Cons split_def isspace_def)
  have ex: "extractors ! 1 = atoms" by (simp add: extractors_def)
  have a: "nat (offsets [[1, 0], [4, 0], [0, 0], [0, 0], [0, 0], [0, 0]] ! 1) + 1 = 5"
    by (simp add: sample_offsets)
  have b: "length (readlines sample_text) = 8" by (simp add: sample_lines)
  from last_section_runs_to_end_of_file [OF h1 h2 h3 h4 h5]
  have "fst (atoms ''system.data'' (one_file ''system.data'' sample_text)) =
     Inr (PyList [[''1'', ''2'', ''3''], [''4'', ''5'', ''6'']])"
    by (simp only: ex a b rows)
  with h1 h2 h3 h4 h5 show ?thesis by blast
qed



text \<open>
  C6. If no line of the file has the keyword of section \<open>k\<close> as its first token, the
  entry of \<open>k\<close> in the table of \<open>parse_lid\<close> is 0 and extractor \<open>k\<close> returns a result with
  no body lines.
\<close>

theorem missing_section_has_entry_zero_and_no_rows:
  assumes "files w fname = Some txt" and "k < 6"
    and "\<forall>l \<in> set (readlines txt). \<not> keyword_line (sections ! k) l"
  shows "(\<exists>in_data. parse_lid fname w = Inr in_data \<and> offsets in_data ! k = 0) \<and>
     fst ((extractors ! k) fname w) = Inr (PyList [])"
proof -
  from assms(3) have z: "last_keyword_index (sections ! k) (readlines txt) = 0"
    by (intro last_keyword_index_none) simp
  have len: "length sections = 6" by (simp add: sections_def)
  let ?os = "map (\<lambda>kw. int (last_keyword_index kw (readlines txt))) sections"
  have "parse_lid fname w = Inr (map (\<lambda>x. [x, 0]) ?os)"
    by (rule parse_lid_offsets [OF assms(1)])
  moreover have "offsets (map (\<lambda>x. [x, 0]) ?os) ! k = 0"
    using assms(2) len z by (simp only: offsets_table) simp
  ultimately have tbl: "\<exists>in_data. parse_lid fname w = Inr in_data \<and> offsets in_data ! k = 0"
    by blast
  from extractors_nth [OF assms(2)] obtain warning1 warning2
    where ex: "extractors ! k = section_data k warning1 warning2" .
  from z have "fst ((extractors ! k) fname w) = Inr (PyList [])"
    unfolding ex by (simp add: section_data_absent [OF assms(1,2)])
  with tbl show ?thesis by blast
qed

theorem missing_section_has_entry_zero_and_no_rows_witness:
  "files (one_file ''system.data'' sample_text) ''system.data'' = Some sample_text \<and>
   (2::nat) < 6 \<and>
   list_all (\<lambda>l. \<not> keyword_line (sections ! 2) l) (readlines sample_text) \<and>
   parse_lid ''system.data'' (one_file ''system.data'' sample_text) =
     Inr [[1, 0], [4, 0], [0, 0], [0, 0], [0, 0], [0, 0]] \<and>
   offsets [[1, 0], [4, 0], [0, 0], [0, 0], [0, 0], [0, 0]] ! 2 = 0 \<and>
   fst (bonds ''system.data'' (one_file ''system.data'' sample_text)) = Inr (PyList [])"
proof -
  have h1: "files (one_file ''system.data'' sample_text) ''system.data'' = Some sample_text"
    by (rule sample_file)
  have h2: "(2::nat) < 6" by simp
  have h3: "list_all (\<lambda>l. \<not> keyword_line (sections ! 2) l) (readlines sample_text)"
    by (simp add: sample_lines sections_def keyword_line_def split_def isspace_def)
  then have h3': "\<forall>l \<in> set (readlines sample_text). \<not> keyword_line (sections ! 2) l"
    by (simp only: list_all_iff)
  have ex: "extractors ! 2 = bonds" by (simp add: extractors_def)
  from missing_section_has_entry_zero_and_no_rows [OF h1 h2 h3']
  have "fst (bonds ''system.data'' (one_file ''system.data'' sample_text)) = Inr (PyList [])"
    by (simp only: ex)
  moreover have "offsets [[1, 0], [4, 0], [0, 0], [0, 0], [0, 0], [0, 0]] ! 2 = 0"
    by (simp add: sample_offsets)
  ultimately show ?thesis using h1 h2 h3 sample_parse_lid [of "''system.data''"] by blast
qed

lemma present_empty_section:
  assumes "k < 6"
  shows "parse_lid ''f'' (one_file ''f'' (''\<newline>'' @ sections ! k @ ''\<newline>'')) =
       Inr (map (\<lambda>x. [x, 0]) ((replicate 6 0)[k := 1])) \<and>
     fst ((extractors ! k) ''f'' (one_file ''f'' (''\<newline>'' @ sections ! k @ ''\<newline>''))) =
       Inr (PyList [])"
proof -
  from assms consider "k = 0" | "k = 1" | "k = 2" | "k = 3" | "k = 4" | "k = 5" by linarith
  then show ?thesis
    by cases
      (simp_all add: extractors_def masses_def atoms_def bonds_def angles_def dihedrals_def
        impropers_def section_data_def parse_lid_def open_readlines_def one_file_def
        readlines_def split_def isspace_def section_bounds_def slice_def slice_bound_def
        sections_def Let_def eval_nat_numeral)
qed

text \<open>
  C7. When the offset of section \<open>k\<close> in the table is 0, extractor \<open>k\<close> returns the empty
  list, not \<open>None\<close>; and there is a file in which section \<open>k\<close> is present (its offset is
  not 0) for which extractor \<open>k\<close> returns the same value.
\<close>

theorem absent_section_returns_empty_list:
  assumes "files w fname = Some txt" and "parse_lid fname w = Inr in_data" and "k < 6"
    and "offsets in_data ! k = 0"
  shows "fst ((extractors ! k) fname w) = Inr (PyList []) \<and>
     fst ((extractors ! k) fname w) \<noteq> Inr PyNone \<and>
     (\<exists>fname' w' in_data'. parse_lid fname' w' = Inr in_data' \<and> offsets in_data' ! k \<noteq> 0 \<and>
        fst ((extractors ! k) fname' w') = fst ((extractors ! k) fname w))"
proof -
  note os = table_of_parse_lid [OF assms(1,2)]
  have len: "length sections = 6" by (simp add: sections_def)
  from assms(3,4) len have z: "int (last_keyword_index (sections ! k) (readlines txt)) = 0"
    by (simp add: os)
  from extractors_nth [OF assms(3)] obtain warning1 warning2
    where ex: "extractors ! k = section_data k warning1 warning2" .
  have r: "fst ((extractors ! k) fname w) = Inr (PyList [])"
    unfolding ex by (simp add: section_data_absent [OF assms(1,3) z])
  let ?w = "one_file ''f'' (''\<newline>'' @ sections ! k @ ''\<newline>'')"
  let ?t = "map (\<lambda>x. [x, 0]) ((replicate 6 0)[k := 1])"
  from present_empty_section [OF assms(3)]
  have "parse_lid ''f'' ?w = Inr ?t" and "fst ((extractors ! k) ''f'' ?w) = Inr (PyList [])"
    by simp_all
  moreover have "offsets ?t ! k \<noteq> 0"
    using assms(3) by (simp only: offsets_table) simp
  ultimately have "\<exists>fname' w' in_data'. parse_lid fname' w' = Inr in_data' \<and>
      offsets in_data' ! k \<noteq> 0 \<and> fst ((extractors ! k) fname' w') = Inr (PyList [])"
    by blast
  with r show ?thesis by simp
qed

theorem absent_section_returns_empty_list_witness:
  "files (one_file ''system.data'' sample_text) ''system.data'' = Some sample_text \<and>
   parse_lid ''system.data'' (one_file ''system.data'' sample_text) =
     Inr [[1, 0], [4, 0], [0, 0], [0, 0], [0, 0], [0, 0]] \<and>
   (5::nat) < 6 \<and>
   offsets [[1, 0], [4, 0], [0, 0], [0, 0], [0, 0], [0, 0]] ! 5 = 0 \<and>
   fst (impropers ''system.data'' (one_file ''system.data'' sample_text)) = Inr (PyList []) \<and>
   fst (impropers ''system.data'' (one_file ''system.data'' sample_text)) \<noteq> Inr PyNone"
proof -
  have h1: "files (one_file ''system.data'' sample_text) ''system.data'' = Some sample_text"
    by (rule sample_file)
  have h2: "parse_lid ''system.data'' (one_file ''system.data'' sample_text) =
     Inr [[1, 0], [4, 0], [0, 0], [0, 0], [0, 0], [0, 0]]"
    by (rule sample_parse_lid)
  have h3: "(5::nat) < 6" by simp
  have h4: "offsets [[1, 0], [4, 0], [0, 0], [0, 0], [0, 0], [0, 0]] ! 5 = 0"
    by (simp add: sample_offsets)
  have ex: "extractors ! 5 = impropers" by (simp add: extractors_def)
  from absent_section_returns_empty_list [OF h1 h2 h3 h4]
  have "fst (impropers ''system.data'' (one_file ''system.data'' sample_text)) = Inr (PyList []) \<and>
     fst (impropers ''system.data'' (one_file ''system.data'' sample_text)) \<noteq> Inr PyNone"
    by (simp only: ex) simp
  with h1 h2 h3 h4 show ?thesis by blast
qed

section \<open>The concrete scenario\<close>

lemma scenario_lines:
  "readlines scenario_text =
     [''2 atoms\<newline>'', ''1 atom types\<newline>'', ''0.0 10.0 xlo xhi\<newline>'', ''Atoms\<newline>'',
      ''1 1 1 0.0 0.0 0.0 0.0\<newline>'', ''2 1 1 0.0 1.0 0.0 0.0\<newline>'']"
  by (simp add: scenario_text_def readlines_def)

lemma scenario_tokens:
  "map split (readlines scenario_text) =
     [[''2'', ''atoms''], [''1'', ''atom'', ''types''], [''0.0'', ''10.0'', ''xlo'', ''xhi''],
      [''Atoms''], [''1'', ''1'', ''1'', ''0.0'', ''0.0'', ''0.0'', ''0.0''],
      [''2'', ''1'', ''1'', ''0.0'', ''1.0'', ''0.0'', ''0.0'']]"
  by (simp add: scenario_lines split_def isspace_def)

lemma scenario_header:
  "lid_header fname (one_file fname scenario_text) =
     Inr ([PStr ''2'', PInt 0, PInt 0, PInt 0, PInt 0],
          [PStr ''1'', PInt 0, PInt 0, PInt 0, PInt 0],
          [PStr ''0.0'', PStr ''10.0'', PInt 0, PInt 0, PInt 0, PInt 0])"
  using scenario_tokens
  by (simp add: lid_header_def open_readlines_def sample_file scenario_lines Let_def
      molecular_prop_def types_prop_def boundary_prop_def sections_def setitem_def)

lemma scenario_parse_lid:
  "parse_lid fname (one_file fname scenario_text) =
     Inr [[0, 0], [3, 0], [0, 0], [0, 0], [0, 0], [0, 0]]"
  using scenario_tokens
  by (simp add: parse_lid_def open_readlines_def sample_file scenario_lines Let_def)

lemma scenario_absent:
  "k \<in> {0, 2, 3, 4, 5} \<Longrightarrow>
   fst (section_data k a b fname (one_file fname scenario_text)) = Inr (PyList [])"
  by (auto simp add: section_data_def scenario_parse_lid section_bounds_def open_readlines_def
      sample_file slice_absent)

lemma scenario_atoms:
  "fst (atoms fname (one_file fname scenario_text)) =
     Inr (PyList [[''1'', ''1'', ''1'', ''0.0'', ''0.0'', ''0.0'', ''0.0''],
                  [''2'', ''1'', ''1'', ''0.0'', ''1.0'', ''0.0'', ''0.0'']])"
  using scenario_tokens
  by (simp add: atoms_def section_data_def scenario_parse_lid section_bounds_def
      open_readlines_def sample_file scenario_lines slice_def slice_bound_def Let_def)

text \<open>
  C9. On the file of the concrete scenario \<open>lid_header\<close> returns the atoms count \<open>2\<close>, the
  atom-types count \<open>1\<close>, \<open>xlo\<close> \<open>0.0\<close> and \<open>xhi\<close> \<open>10.0\<close>, all as strings; \<open>parse_lid\<close>
  records 3 for \<open>Atoms\<close> and 0 for every other section; \<open>atoms\<close> returns the two
  tokenized rows; every other extractor returns the empty result.
\<close>

theorem concrete_scenario:
  "lid_header ''system.data'' (one_file ''system.data'' scenario_text) =
     Inr ([PStr ''2'', PInt 0, PInt 0, PInt 0, PInt 0],
          [PStr ''1'', PInt 0, PInt 0, PInt 0, PInt 0],
          [PStr ''0.0'', PStr ''10.0'', PInt 0, PInt 0, PInt 0, PInt 0]) \<and>
   parse_lid ''system.data'' (one_file ''system.data'' scenario_text) =
     Inr [[0, 0], [3, 0], [0, 0], [0, 0], [0, 0], [0, 0]] \<and>
   fst (atoms ''system.data'' (one_file ''system.data'' scenario_text)) =
     Inr (PyList [[''1'', ''1'', ''1'', ''0.0'', ''0.0'', ''0.0'', ''0.0''],
                  [''2'', ''1'', ''1'', ''0.0'', ''1.0'', ''0.0'', ''0.0'']]) \<and>
   fst (masses ''system.data'' (one_file ''system.data'' scenario_text)) = Inr (PyList []) \<and>
   fst (bonds ''system.data'' (one_file ''system.data'' scenario_text)) = Inr (PyList []) \<and>
   fst (angles ''system.data'' (one_file ''system.data'' scenario_text)) = Inr (PyList []) \<and>
   fst (dihedrals ''system.data'' (one_file ''system.data'' scenario_text)) = Inr (PyList []) \<and>
   fst (impropers ''system.data'' (one_file ''system.data'' scenario_text)) = Inr (PyList [])"
  by (simp add: scenario_header scenario_parse_lid scenario_atoms scenario_absent
      masses_def bonds_def angles_def dihedrals_def impropers_def)

section \<open>The header reader\<close>

lemma zhi_tokens: "split ''1 2 zhi 3\<newline>'' = [''1'', ''2'', ''zhi'', ''3'']"
  by (simp add: split_def isspace_def)

text \<open>
  C3. \<open>lid_header\<close> does not return normally on every input. On the one-line file
  \<open>1 2 zhi 3\<close> the line has four tokens and its third token is the boundary label
  \<open>zhi\<close>, whose index in \<open>boundary_prop\<close> is 5: the second store goes to index 6 of the
  six-element list and raises IndexError.
\<close>

theorem lid_header_zhi_raises:
  "lid_header ''system.data'' (one_file ''system.data'' ''1 2 zhi 3\<newline>'') = Inl IndexError"
  using zhi_tokens
  by (simp add: lid_header_def open_readlines_def one_file_def readlines_def Let_def
      molecular_prop_def types_prop_def boundary_prop_def sections_def setitem_def)

lemma lid_header_loop_break:
  "header_break_line l \<Longrightarrow>
   lid_header_loop (pre @ l # post) md td bd = lid_header_loop pre md td bd"
proof (induction pre arbitrary: md td bd)
  case Nil
  then show ?case by (auto simp: header_break_line_def Let_def)
next
  case (Cons x pre)
  show ?case
    by (simp add: Cons.IH [OF Cons.prems] Let_def split: option.splits sum.splits)
qed

text \<open>
  C8 (amended). \<open>lid_header\<close> stops at the first line that matches none of the count,
  type-count and boundary branches and whose first token is a section keyword: for a
  file with such a line, the result is that of the file made of the lines strictly
  before it.
\<close>

theorem lid_header_stops_at_break_line:
  assumes "files w fname = Some txt" and "readlines txt = pre @ l # post"
    and "header_break_line l"
    and "files w' fname' = Some txt'" and "readlines txt' = pre"
  shows "lid_header fname w = lid_header fname' w'"
  using assms by (simp add: lid_header_def open_readlines_def lid_header_loop_break)

theorem lid_header_stops_at_break_line_witness:
  "files (one_file ''system.data'' scenario_text) ''system.data'' = Some scenario_text \<and>
   readlines scenario_text =
     [''2 atoms\<newline>'', ''1 atom types\<newline>'', ''0.0 10.0 xlo xhi\<newline>''] @ ''Atoms\<newline>'' #
     [''1 1 1 0.0 0.0 0.0 0.0\<newline>'', ''2 1 1 0.0 1.0 0.0 0.0\<newline>''] \<and>
   header_break_line ''Atoms\<newline>'' \<and>
   files (one_file ''head.data'' ''2 atoms\<newline>1 atom types\<newline>0.0 10.0 xlo xhi\<newline>'') ''head.data'' =
     Some ''2 atoms\<newline>1 atom types\<newline>0.0 10.0 xlo xhi\<newline>'' \<and>
   readlines ''2 atoms\<newline>1 atom types\<newline>0.0 10.0 xlo xhi\<newline>'' =
     [''2 atoms\<newline>'', ''1 atom types\<newline>'', ''0.0 10.0 xlo xhi\<newline>''] \<and>
   lid_header ''system.data'' (one_file ''system.data'' scenario_text) =
     lid_header ''head.data'' (one_file ''head.data'' ''2 atoms\<newline>1 atom types\<newline>0.0 10.0 xlo xhi\<newline>'')"
proof -
  have h1: "files (one_file ''system.data'' scenario_text) ''system.data'' = Some scenario_text"
    by (rule sample_file)
  have h2: "readlines scenario_text =
     [''2 atoms\<newline>'', ''1 atom types\<newline>'', ''0.0 10.0 xlo xhi\<newline>''] @ ''Atoms\<newline>'' #
     [''1 1 1 0.0 0.0 0.0 0.0\<newline>'', ''2 1 1 0.0 1.0 0.0 0.0\<newline>'']"
    by (simp add: scenario_lines)
  have h3: "header_break_line ''Atoms\<newline>''"
    by (simp add: header_break_line_def split_def isspace_def sections_def)
  have h4: "files (one_file ''head.data'' ''2 atoms\<newline>1 atom types\<newline>0.0 10.0 xlo xhi\<newline>'') ''head.data'' =
     Some ''2 atoms\<newline>1 atom types\<newline>0.0 10.0 xlo xhi\<newline>''"
    by (rule sample_file)
  have h5: "readlines ''2 atoms\<newline>1 atom types\<newline>0.0 10.0 xlo xhi\<newline>'' =
     [''2 atoms\<newline>'', ''1 atom types\<newline>'', ''0.0 10.0 xlo xhi\<newline>'']"
    by (simp add: readlines_def)
  from lid_header_stops_at_break_line [OF h1 h2 h3 h4 h5] h1 h2 h3 h4 h5
  show ?thesis by blast
qed

text \<open>
  C8 as stated fails: the two files below agree on their first line, whose first token is
  the section keyword \<open>Atoms\<close>, and differ only after it, yet their headers differ. The
  line \<open>Atoms atoms\<close> matches the count branch, so the scan goes on to the next line.
\<close>

theorem lid_header_keyword_line_counterexample:
  "keyword_line ''Atoms'' (readlines ''Atoms atoms\<newline>5 bonds\<newline>'' ! 0) \<and>
   readlines ''Atoms atoms\<newline>5 bonds\<newline>'' ! 0 = readlines ''Atoms atoms\<newline>6 bonds\<newline>'' ! 0 \<and>
   lid_header ''system.data'' (one_file ''system.data'' ''Atoms atoms\<newline>5 bonds\<newline>'') =
     Inr ([PStr ''Atoms'', PStr ''5'', PInt 0, PInt 0, PInt 0],
          [PInt 0, PInt 0, PInt 0, PInt 0, PInt 0],
          [PInt 0, PInt 0, PInt 0, PInt 0, PInt 0, PInt 0]) \<and>
   lid_header ''system.data'' (one_file ''system.data'' ''Atoms atoms\<newline>6 bonds\<newline>'') =
     Inr ([PStr ''Atoms'', PStr ''6'', PInt 0, PInt 0, PInt 0],
          [PInt 0, PInt 0, PInt 0, PInt 0, PInt 0],
          [PInt 0, PInt 0, PInt 0, PInt 0, PInt 0, PInt 0])"
  by (simp add: lid_header_def open_readlines_def one_file_def readlines_def Let_def
      keyword_line_def split_def isspace_def
      molecular_prop_def types_prop_def boundary_prop_def sections_def setitem_def)

section \<open>The section locator\<close>

lemma duplicate_lines:
  "readlines duplicate_text = [''x\<newline>'', ''Atoms\<newline>'', ''1\<newline>'', ''\<newline>'', ''Atoms\<newline>'', ''2\<newline>'']"
  by (simp add: duplicate_text_def readlines_def)

lemma duplicate_parse_lid:
  "parse_lid fname (one_file fname duplicate_text) =
     Inr [[0, 0], [4, 0], [0, 0], [0, 0], [0, 0], [0, 0]]"
  by (simp add: parse_lid_def open_readlines_def sample_file duplicate_lines split_def isspace_def)

lemma duplicate_indices: "keyword_indices ''Atoms'' (readlines duplicate_text) = [1, 4]"
  by (simp add: keyword_indices_def duplicate_lines upt_conv_Cons keyword_line_def split_def
      isspace_def)

lemma scan_keyword_no_match:
  "\<forall>l \<in> set ls. \<not> keyword_line kw l \<Longrightarrow> scan_keyword kw ls c v = v"
  by (induction ls arbitrary: c) simp_all

lemma scan_keyword_last_match:
  assumes "i < length ls" and "keyword_line kw (ls ! i)"
    and "\<forall>l \<in> set (drop (Suc i) ls). \<not> keyword_line kw l"
  shows "scan_keyword kw ls 0 0 = int i"
proof -
  from assms(1) have "ls = take i ls @ ls ! i # drop (Suc i) ls"
    by (simp add: id_take_nth_drop)
  then have "scan_keyword kw ls 0 0 =
      scan_keyword kw (take i ls @ ls ! i # drop (Suc i) ls) 0 0" by simp
  also have "\<dots> = int i"
    using assms by (simp add: scan_keyword_append scan_keyword_no_match min_def)
  finally show ?thesis .
qed

text \<open>
  C4. For each of the six keywords \<open>parse_lid\<close> records the zero-based index, counted
  over all lines of the file, of the last line whose first token is that keyword, or 0
  if there is no such line.
\<close>

theorem parse_lid_records_last_keyword_line:
  assumes "files w fname = Some txt" and "k < 6"
  shows "\<exists>in_data. parse_lid fname w = Inr in_data \<and> length in_data = 6 \<and>
     in_data ! k = [int (last_keyword_index (sections ! k) (readlines txt)), 0]"
proof -
  have len: "length sections = 6" by (simp add: sections_def)
  let ?t = "map (\<lambda>kw. [int (last_keyword_index kw (readlines txt)), 0]) sections"
  have "parse_lid fname w = Inr ?t" by (rule parse_lid_table [OF assms(1)])
  moreover have "length ?t = 6" using len by simp
  moreover have "?t ! k = [int (last_keyword_index (sections ! k) (readlines txt)), 0]"
    using assms(2) len by simp
  ultimately show ?thesis by blast
qed

theorem parse_lid_records_last_keyword_line_witness:
  "files (one_file ''system.data'' duplicate_text) ''system.data'' = Some duplicate_text \<and>
   (1::nat) < 6 \<and>
   keyword_indices (sections ! 1) (readlines duplicate_text) = [1, 4] \<and>
   (\<exists>in_data. parse_lid ''system.data'' (one_file ''system.data'' duplicate_text) = Inr in_data \<and>
      length in_data = 6 \<and> in_data ! 1 = [4, 0])"
proof -
  have h1: "files (one_file ''system.data'' duplicate_text) ''system.data'' = Some duplicate_text"
    by (rule sample_file)
  have h2: "(1::nat) < 6" by simp
  have s: "sections ! 1 = ''Atoms''" by (simp add: sections_def)
  have i: "keyword_indices (sections ! 1) (readlines duplicate_text) = [1, 4]"
    by (simp only: s duplicate_indices)
  then have l: "int (last_keyword_index (sections ! 1) (readlines duplicate_text)) = 4"
    by (simp add: last_keyword_index_def)
  from parse_lid_records_last_keyword_line [OF h1 h2]
  have "\<exists>in_data. parse_lid ''system.data'' (one_file ''system.data'' duplicate_text) = Inr in_data \<and>
      length in_data = 6 \<and> in_data ! 1 = [4, 0]"
    by (simp only: l)
  with h1 h2 i show ?thesis by blast
qed

text \<open>
  C5 (amended). The entry of each keyword reflects its last occurrence: if line \<open>i\<close> has
  the keyword of section \<open>k\<close> as its first token and no later line has, the recorded
  offset is \<open>i\<close>. A file with a duplicate keyword keeps only the last occurrence.
\<close>

theorem parse_lid_keeps_last_occurrence:
  assumes "files w fname = Some txt" and "parse_lid fname w = Inr in_data" and "k < 6"
    and "i < length (readlines txt)"
    and "keyword_line (sections ! k) (readlines txt ! i)"
    and "\<forall>l \<in> set (drop (Suc i) (readlines txt)). \<not> keyword_line (sections ! k) l"
  shows "offsets in_data ! k = int i"
proof -
  have len: "length sections = 6" by (simp add: sections_def)
  note os = table_of_parse_lid [OF assms(1,2)]
  from assms(3) len
  have "offsets in_data ! k = int (last_keyword_index (sections ! k) (readlines txt))"
    by (simp add: os)
  also have "\<dots> = scan_keyword (sections ! k) (readlines txt) 0 0"
    by (simp only: scan_keyword_last)
  also have "\<dots> = int i"
    by (rule scan_keyword_last_match [OF assms(4,5,6)])
  finally show ?thesis .
qed

theorem parse_lid_keeps_last_occurrence_witness:
  "files (one_file ''system.data'' duplicate_text) ''system.data'' = Some duplicate_text \<and>
   parse_lid ''system.data'' (one_file ''system.data'' duplicate_text) =
     Inr [[0, 0], [4, 0], [0, 0], [0, 0], [0, 0], [0, 0]] \<and>
   (1::nat) < 6 \<and>
   (4::nat) < length (readlines duplicate_text) \<and>
   keyword_line (sections ! 1) (readlines duplicate_text ! 4) \<and>
   list_all (\<lambda>l. \<not> keyword_line (sections ! 1) l) (drop (Suc 4) (readlines duplicate_text)) \<and>
   offsets [[0, 0], [4, 0], [0, 0], [0, 0], [0, 0], [0, 0]] ! 1 = int 4"
proof -
  have h1: "files (one_file ''system.data'' duplicate_text) ''system.data'' = Some duplicate_text"
    by (rule sample_file)
  have h2: "parse_lid ''system.data'' (one_file ''system.data'' duplicate_text) =
     Inr [[0, 0], [4, 0], [0, 0], [0, 0], [0, 0], [0, 0]]"
    by (rule duplicate_parse_lid)
  have h3: "(1::nat) < 6" by simp
  have h4: "(4::nat) < length (readlines duplicate_text)"
    by (simp add: duplicate_lines)
  have h5: "keyword_line (sections ! 1) (readlines duplicate_text ! 4)"
    by (simp add: duplicate_lines sections_def keyword_line_def split_def isspace_def)
  have h6: "list_all (\<lambda>l. \<not> keyword_line (sections ! 1) l) (drop (Suc 4) (readlines duplicate_text))"
    by (simp add: duplicate_lines sections_def keyword_line_def split_def isspace_def)
  then have h6': "\<forall>l \<in> set (drop (Suc 4) (readlines duplicate_text)). \<not> keyword_line (sections ! 1) l"
    by (simp only: list_all_iff)
  from parse_lid_keeps_last_occurrence [OF h1 h2 h3 h4 h5 h6'] h1 h2 h3 h4 h5 h6
  show ?thesis by blast
qed

text \<open>
  C5 as stated fails on \<open>duplicate_text\<close>: the first line with the keyword \<open>Atoms\<close> is
  line 1, and \<open>parse_lid\<close> records 4, the last one.
\<close>

theorem parse_lid_first_occurrence_counterexample:
  "first_keyword_index ''Atoms'' (readlines duplicate_text) = 1 \<and>
   parse_lid ''system.data'' (one_file ''system.data'' duplicate_text) =
     Inr [[0, 0], [4, 0], [0, 0], [0, 0], [0, 0], [0, 0]]"
  by (simp add: first_keyword_index_def duplicate_indices duplicate_parse_lid)

section \<open>Repeated calls\<close>

lemma section_bounds_world:
  "section_bounds k a b in_data w = Inl e \<Longrightarrow> section_bounds k a b in_data w' = Inl e"
  "section_bounds k a b in_data w = Inr (u, s, t, w1) \<Longrightarrow>
     files w1 = files w \<and> (\<exists>w1'. section_bounds k a b in_data w' = Inr (u, s, t, w1') \<and> files w1' = files w')"
  by (auto simp: section_bounds_def Let_def split: if_splits sum.splits option.splits)

lemma open_readlines_files: "files w' = files w \<Longrightarrow> open_readlines fname w' = open_readlines fname w"
  by (simp add: open_readlines_def)

lemma section_data_files: "files (snd (section_data k a b fname w)) = files w"
proof (cases "parse_lid fname w")
  case (Inl e)
  then show ?thesis by (simp add: section_data_def)
next
  case (Inr in_data)
  show ?thesis
  proof (cases "section_bounds k a b in_data w")
    case (Inl e)
    with Inr show ?thesis by (simp add: section_data_def)
  next
    case inr: (Inr r)
    obtain u s t w1 where r: "r = (u, s, t, w1)" by (cases r) auto
    from section_bounds_world(2) [OF inr [unfolded r]] have "files w1 = files w" by simp
    with Inr inr r show ?thesis
      by (simp add: section_data_def split: sum.splits)
  qed
qed

lemma section_data_reads:
  assumes "open_readlines fname w' = open_readlines fname w"
  shows "fst (section_data k a b fname w') = fst (section_data k a b fname w)"
proof -
  from assms have pl: "parse_lid fname w' = parse_lid fname w"
    by (simp add: parse_lid_def)
  show ?thesis
  proof (cases "parse_lid fname w")
    case (Inl e)
    with pl show ?thesis by (simp add: section_data_def)
  next
    case (Inr in_data)
    show ?thesis
    proof (cases "section_bounds k a b in_data w")
      case (Inl e)
      from section_bounds_world(1) [OF this] have "section_bounds k a b in_data w' = Inl e" .
      with Inl Inr pl show ?thesis by (simp add: section_data_def)
    next
      case inr: (Inr r)
      obtain u s t w1 where r: "r = (u, s, t, w1)" by (cases r) auto
      from section_bounds_world(2) [OF inr [unfolded r], of w']
      obtain w1' where f1: "files w1 = files w"
        and sb': "section_bounds k a b in_data w' = Inr (u, s, t, w1')"
        and f1': "files w1' = files w'" by blast
      have "open_readlines fname w1' = open_readlines fname w'"
        by (rule open_readlines_files [OF f1'])
      moreover have "open_readlines fname w1 = open_readlines fname w"
        by (rule open_readlines_files [OF f1])
      ultimately have "open_readlines fname w1' = open_readlines fname w1"
        using assms by simp
      with Inr pl inr r sb' show ?thesis
        by (simp add: section_data_def split: sum.splits)
    qed
  qed
qed

text \<open>
  C10. The value an extractor returns is a function of the lines of the file alone: two
  worlds in which the file reads the same give the same result, and so does a second
  call made after the first one, which has only printed.
\<close>

theorem extractor_result_determined_by_file:
  assumes "k < 6" and "open_readlines fname w' = open_readlines fname w"
  shows "fst ((extractors ! k) fname w') = fst ((extractors ! k) fname w) \<and>
     fst ((extractors ! k) fname (snd ((extractors ! k) fname w))) = fst ((extractors ! k) fname w)"
proof -
  from extractors_nth [OF assms(1)] obtain warning1 warning2
    where ex: "extractors ! k = section_data k warning1 warning2" .
  have "open_readlines fname (snd (section_data k warning1 warning2 fname w)) =
      open_readlines fname w"
    by (rule open_readlines_files [OF section_data_files])
  then have "fst (section_data k warning1 warning2 fname
        (snd (section_data k warning1 warning2 fname w))) =
      fst (section_data k warning1 warning2 fname w)"
    by (rule section_data_reads)
  moreover have "fst (section_data k warning1 warning2 fname w') =
      fst (section_data k warning1 warning2 fname w)"
    by (rule section_data_reads [OF assms(2)])
  ultimately show ?thesis
    unfolding ex by (rule conjI [rotated])
qed

lemma sample_bonds_prints:
  "stdout (snd (bonds fname (one_file fname sample_text))) =
     [Fore_RED @ ''Warning: No atoms data available.'',
      Fore_RED @ ''LAMMPS simulation may produce wrong results.'']"
proof -
  have "snd (bonds fname (one_file fname sample_text)) =
      print (Fore_RED @ ''LAMMPS simulation may produce wrong results.'')
        (print (Fore_RED @ ''Warning: No atoms data available.'') (one_file fname sample_text))"
    by (simp add: bonds_def section_data_def sample_parse_lid section_bounds_def
        open_readlines_def sample_file)
  then show ?thesis by (simp add: print_def one_file_def)
qed

theorem extractor_result_determined_by_file_witness:
  "(2::nat) < 6 \<and>
   open_readlines ''system.data'' ((one_file ''system.data'' sample_text)\<lparr>stdout := [''earlier output'']\<rparr>) =
     open_readlines ''system.data'' (one_file ''system.data'' sample_text) \<and>
   stdout (snd (bonds ''system.data'' (one_file ''system.data'' sample_text))) \<noteq>
     stdout (one_file ''system.data'' sample_text) \<and>
   fst (bonds ''system.data'' ((one_file ''system.data'' sample_text)\<lparr>stdout := [''earlier output'']\<rparr>)) =
     fst (bonds ''system.data'' (one_file ''system.data'' sample_text)) \<and>
   fst (bonds ''system.data'' (snd (bonds ''system.data'' (one_file ''system.data'' sample_text)))) =
     fst (bonds ''system.data'' (one_file ''system.data'' sample_text))"
proof -
  have h1: "(2::nat) < 6" by simp
  have h2: "open_readlines ''system.data''
      ((one_file ''system.data'' sample_text)\<lparr>stdout := [''earlier output'']\<rparr>) =
     open_readlines ''system.data'' (one_file ''system.data'' sample_text)"
    by (simp add: open_readlines_def)
  have p: "stdout (snd (bonds ''system.data'' (one_file ''system.data'' sample_text))) \<noteq>
     stdout (one_file ''system.data'' sample_text)"
    by (simp add: sample_bonds_prints) (simp add: one_file_def)
  have ex: "extractors ! 2 = bonds" by (simp add: extractors_def)
  from extractor_result_determined_by_file [OF h1 h2]
  have "fst (bonds ''system.data''
        ((one_file ''system.data'' sample_text)\<lparr>stdout := [''earlier output'']\<rparr>)) =
      fst (bonds ''system.data'' (one_file ''system.data'' sample_text)) \<and>
     fst (bonds ''system.data'' (snd (bonds ''system.data'' (one_file ''system.data'' sample_text)))) =
      fst (bonds ''system.data'' (one_file ''system.data'' sample_text))"
    by (simp only: ex)
  with h1 h2 p show ?thesis by (intro conjI) (rule h1, rule h2, rule p, simp_all only:)
qed

end
